theory Spec2Isabelle
  imports Main "HOL-Library.Word" "HOL-Library.Log_Nat"
begin

section \<open>FoodHub: the order and inventory service\<close>

text \<open>
  The service is one TypeScript module of query and update entry points over three
  \<^verbatim>\<open>StableBTreeMap\<close> collections and one module-level constant \<^verbatim>\<open>owner\<close>.
  Every entry point is embedded as a function of the call's environment (what
  \<^verbatim>\<open>ic.caller()\<close>, \<^verbatim>\<open>ic.time()\<close> and \<^verbatim>\<open>uuidv4()\<close> give during that call) and of the
  state of the module, returning the result and the state after the call.
\<close>

subsection \<open>Data model\<close>

text \<open>
  A \<^verbatim>\<open>Principal\<close> is only ever compared through \<^verbatim>\<open>toString()\<close>; it is modelled by
  its text form. \<^verbatim>\<open>nat64\<close> is a 64-bit word.
\<close>

datatype Principal = Principal (toString: string)

type_synonym nat64 = "64 word"

text \<open>
  The fields declared \<^verbatim>\<open>number\<close> (quantities and ratings) hold IEEE 754 binary64
  values: not-a-number, the two infinities, negative zero, and the finite values, each
  given by the rational it denotes (\<open>Fin 0\<close> is positive zero). The finite values
  of the format are the rationals \<open>m * 2 ^ e\<close> with \<open>\<bar>m\<bar> < 2 ^ 53\<close> and
  \<open>- 1074 \<le> e \<le> 971\<close>. \<open>num n\<close> is the number of the integer \<open>n\<close>.
\<close>

datatype number = NaN | PosInf | NegInf | NegZero | Fin rat

definition num :: "int \<Rightarrow> number" where
  "num n = Fin (of_int n)"

text \<open>\<^verbatim>\<open>!x\<close> on a number: true of both zeros and of not-a-number, of nothing else.\<close>

definition falsy :: "number \<Rightarrow> bool" where
  "falsy x = (x = NaN \<or> x = NegZero \<or> x = Fin 0)"

text \<open>
  Rounding of a rational to the format, to nearest with ties to even (the rounding of
  every arithmetic operator of the language). The smallest positive value of the
  format is \<open>1 / 2 ^ emin\<close>, and \<open>2 ^ emax\<close> is the least power of two too large
  for it. \<open>k\<close> is the magnitude in units of the smallest positive value;
  \<open>shift\<close> is the number of low bits of \<open>k\<close> that do not fit into the 53 bits of a
  significand, and \<open>k\<close> is rounded to a multiple \<open>m\<close> of \<open>2 ^ shift\<close>; a
  magnitude of \<open>2 ^ emax\<close> or more after rounding is infinite.
\<close>

definition emin :: nat where
  "emin = 1074"

definition emax :: nat where
  "emax = 1024"

definition round_half_even :: "rat \<Rightarrow> int" where
  "round_half_even x =
     (let f = \<lfloor>x\<rfloor>; r = x - of_int f
      in if r < 1 / 2 then f
         else if 1 / 2 < r then f + 1
         else if even f then f else f + 1)"

definition round64 :: "rat \<Rightarrow> number" where
  "round64 d =
     (let k = \<bar>d\<bar> * 2 ^ emin;
          shift = nat (bitlen \<lfloor>k\<rfloor> - 53);
          m = round_half_even (k / 2 ^ shift) * 2 ^ shift
      in if 2 ^ (emax + emin) \<le> m then (if d < 0 then NegInf else PosInf)
         else if m = 0 \<and> d < 0 then NegZero
         else Fin (sgn d * of_int m / 2 ^ emin))"

text \<open>
  The binary operator \<^verbatim>\<open>-\<close> on numbers: not-a-number if an operand is, or if both
  are the same infinity; an infinity if one operand is; else the rounded difference,
  where a zero difference is positive zero, except that negative zero minus positive
  zero is negative zero.
\<close>

definition fsub :: "number \<Rightarrow> number \<Rightarrow> number" where
  "fsub x y =
     (case (x, y) of
        (NaN, _) \<Rightarrow> NaN
      | (_, NaN) \<Rightarrow> NaN
      | (PosInf, PosInf) \<Rightarrow> NaN
      | (PosInf, _) \<Rightarrow> PosInf
      | (NegInf, NegInf) \<Rightarrow> NaN
      | (NegInf, _) \<Rightarrow> NegInf
      | (_, PosInf) \<Rightarrow> NegInf
      | (_, NegInf) \<Rightarrow> PosInf
      | (NegZero, NegZero) \<Rightarrow> Fin 0
      | (NegZero, Fin b) \<Rightarrow> if b = 0 then NegZero else round64 (- b)
      | (Fin a, NegZero) \<Rightarrow> round64 a
      | (Fin a, Fin b) \<Rightarrow> round64 (a - b))"

text \<open>
  The records of the source share field names (\<^verbatim>\<open>id\<close>, \<^verbatim>\<open>productId\<close>, ...), so
  each field carries a prefix naming its record: \<open>fp\<close> FoodProduct, \<open>fpl\<close>
  FoodPayload, \<open>o\<close> Order, \<open>opl\<close> OrderPayload, \<open>ci\<close> CustomerInteraction,
  \<open>cipl\<close> CustomerInteractionPayload.
\<close>

record FoodProduct =
  fp_id :: string
  fp_name :: string
  fp_description :: string
  fp_price :: nat64
  fp_quantityAvailable :: number

record FoodPayload =
  fpl_name :: string
  fpl_description :: string
  fpl_price :: nat64
  fpl_quantityAvailable :: number

record Order =
  o_id :: string
  o_customerId :: Principal
  o_productId :: string
  o_quantity :: number
  o_status :: string
  o_createdAt :: nat64

record OrderPayload =
  opl_productId :: string
  opl_quantity :: number

record CustomerInteraction =
  ci_id :: string
  ci_customerId :: Principal
  ci_productId :: string
  ci_rating :: number
  ci_review :: string
  ci_createdAt :: nat64

record CustomerInteractionPayload =
  cipl_productId :: string
  cipl_rating :: number
  cipl_review :: string

text \<open>
  \<^verbatim>\<open>Result<T, string>\<close>: the error carries the message of the source.
\<close>

type_synonym 'a Result = "string + 'a"

abbreviation Ok :: "'a \<Rightarrow> 'a Result" where
  "Ok \<equiv> Inr"

abbreviation Err :: "string \<Rightarrow> 'a Result" where
  "Err \<equiv> Inl"

subsection \<open>The store and the environment of a call\<close>

text \<open>
  A \<^verbatim>\<open>StableBTreeMap(memoryId, 44, 512)\<close> keeps its entries serialised in stable
  memory (the two numbers bound the byte size of a key and of a value). It is
  modelled as the opaque map the specification takes it for: \<^verbatim>\<open>get(k)\<close> is the
  lookup \<open>m k\<close>, which hands out a value, not a reference into the map, and
  \<^verbatim>\<open>insert(k, v)\<close> is the update \<open>m(k \<mapsto> v)\<close>, which does not fail; so the
  \<^verbatim>\<open>catch\<close> clauses around \<^verbatim>\<open>insert\<close> have no counterpart here.

  \<^verbatim>\<open>owner\<close> is evaluated once, when the module is initialised, and never assigned
  again: it is a field of the state that no entry point changes.
\<close>

record State =
  foodProducts :: "string \<rightharpoonup> FoodProduct"
  orders :: "string \<rightharpoonup> Order"
  customerInteractions :: "string \<rightharpoonup> CustomerInteraction"
  owner :: Principal

record Env =
  caller :: Principal
  time :: nat64
  uuidv4 :: string

text \<open>
  \<^verbatim>\<open>get\<close> returns an \<^verbatim>\<open>Opt\<close>, the variant object that \<^verbatim>\<open>match\<close> dispatches on by
  its tag: \<^verbatim>\<open>{Some: v}\<close> or \<^verbatim>\<open>{None: null}\<close>; every read of a collection by key in
  the module hands the result of \<^verbatim>\<open>get\<close> to \<^verbatim>\<open>match\<close> with a \<^verbatim>\<open>Some\<close> and a
  \<^verbatim>\<open>None\<close> handler, but for the duplicate check of \<^verbatim>\<open>addProduct\<close>, which tests it with
  \<^verbatim>\<open>if (existingProduct)\<close>. Either variant is a JavaScript object, and every object
  is truthy. (Inside a \<^verbatim>\<open>Some\<close> handler the record itself is an object too, so the
  \<^verbatim>\<open>order &&\<close> in front of the status tests holds and is left out.)
\<close>

definition truthy :: "'a option \<Rightarrow> bool" where
  "truthy opt = True"

subsection \<open>Queries\<close>

definition getProductsbyId :: "string \<Rightarrow> State \<Rightarrow> FoodProduct Result" where
  "getProductsbyId i s =
     (if i = '''' then Err ''Invalid ID provided.''
      else case foodProducts s i of
             Some product \<Rightarrow> Ok product
           | None \<Rightarrow> Err (''Product with id='' @ i @ '' not found''))"

subsection \<open>Updates on products\<close>

definition addProduct :: "Env \<Rightarrow> FoodPayload \<Rightarrow> State \<Rightarrow> FoodProduct Result \<times> State" where
  "addProduct env payload s =
     (if fpl_name payload = '''' \<or> fpl_description payload = '''' \<or>
         fpl_price payload = 0 \<or> falsy (fpl_quantityAvailable payload)
      then (Err ''Invalid payload'', s)
      else
        let productId = uuidv4 env;
            product = \<lparr>fp_id = productId,
                       fp_name = fpl_name payload,
                       fp_description = fpl_description payload,
                       fp_price = fpl_price payload,
                       fp_quantityAvailable = fpl_quantityAvailable payload\<rparr>;
            existingProduct = foodProducts s (fp_id product)
        in if truthy existingProduct
           then (Err ''Product with the same id already exists'', s)
           else (Ok product,
                 s\<lparr>foodProducts := (foodProducts s)(fp_id product \<mapsto> product)\<rparr>))"

definition updateProductQuantity ::
  "Env \<Rightarrow> string \<Rightarrow> number \<Rightarrow> State \<Rightarrow> FoodProduct Result \<times> State" where
  "updateProductQuantity env productId newQuantity s =
     (if productId = '''' then (Err ''Invalid Product ID provided.'', s)
      else case foodProducts s productId of
             Some product \<Rightarrow>
               if toString (owner s) \<noteq> toString (caller env)
               then (Err ''You are not the owner of this product'', s)
               else
                 let updatedProduct = product\<lparr>fp_quantityAvailable := newQuantity\<rparr>
                 in (Ok updatedProduct,
                     s\<lparr>foodProducts := (foodProducts s)(fp_id product \<mapsto> updatedProduct)\<rparr>)
           | None \<Rightarrow>
               (Err (''Couldn't update Product with id='' @ productId @ ''. Product not found''),
                s))"

subsection \<open>Updates on orders\<close>

definition placeOrder :: "Env \<Rightarrow> OrderPayload \<Rightarrow> State \<Rightarrow> Order Result \<times> State" where
  "placeOrder env payload s =
     (if opl_productId payload = '''' \<or> falsy (opl_quantity payload)
      then (Err ''Invalid payload'', s)
      else case foodProducts s (opl_productId payload) of
             Some product \<Rightarrow>
               let orderId = uuidv4 env;
                   order = \<lparr>o_id = orderId,
                            o_customerId = caller env,
                            o_productId = opl_productId payload,
                            o_quantity = opl_quantity payload,
                            o_status = ''placed'',
                            o_createdAt = time env\<rparr>;
                   s1 = s\<lparr>orders := (orders s)(orderId \<mapsto> order)\<rparr>;
                   updatedProduct =
                     product\<lparr>fp_quantityAvailable :=
                                fsub (fp_quantityAvailable product) (opl_quantity payload)\<rparr>;
                   s2 = s1\<lparr>foodProducts := (foodProducts s1)(fp_id product \<mapsto> updatedProduct)\<rparr>
               in (Ok order, s2)
           | None \<Rightarrow> (Err ''Product not found'', s))"

text \<open>
  The three transitions assign to the \<^verbatim>\<open>status\<close> field of the record that
  \<^verbatim>\<open>orders.get\<close> handed out, and return; none of them calls \<^verbatim>\<open>orders.insert\<close>.
  The assignment is the record update bound to \<open>order'\<close>; the state is returned
  as it was.
\<close>

definition cancelOrder :: "Env \<Rightarrow> string \<Rightarrow> State \<Rightarrow> bool \<times> State" where
  "cancelOrder env orderId s =
     (if orderId = '''' then (False, s)
      else case orders s orderId of
             Some order \<Rightarrow>
               if toString (o_customerId order) \<noteq> toString (caller env) then (False, s)
               else if o_status order = ''placed''
               then let order' = order\<lparr>o_status := ''cancelled''\<rparr> in (True, s)
               else (False, s)
           | None \<Rightarrow> (False, s))"

text \<open>\<^verbatim>\<open>confirmOrder\<close> never reads \<^verbatim>\<open>ic.caller()\<close>: it takes no environment.\<close>

definition confirmOrder :: "string \<Rightarrow> State \<Rightarrow> bool \<times> State" where
  "confirmOrder orderId s =
     (if orderId = '''' then (False, s)
      else case orders s orderId of
             Some order \<Rightarrow>
               if o_status order = ''placed''
               then let order' = order\<lparr>o_status := ''confirmed''\<rparr> in (True, s)
               else (False, s)
           | None \<Rightarrow> (False, s))"

definition deliverOrder :: "Env \<Rightarrow> string \<Rightarrow> State \<Rightarrow> bool \<times> State" where
  "deliverOrder env orderId s =
     (if orderId = '''' then (False, s)
      else case orders s orderId of
             Some order \<Rightarrow>
               if toString (owner s) \<noteq> toString (caller env) then (False, s)
               else if o_status order = ''confirmed''
               then let order' = order\<lparr>o_status := ''delivered''\<rparr> in (True, s)
               else (False, s)
           | None \<Rightarrow> (False, s))"

subsection \<open>Updates on customer interactions\<close>

definition addCustomerInteraction ::
  "Env \<Rightarrow> CustomerInteractionPayload \<Rightarrow> State \<Rightarrow> CustomerInteraction Result \<times> State" where
  "addCustomerInteraction env payload s =
     (if cipl_productId payload = '''' \<or> falsy (cipl_rating payload) \<or>
         cipl_review payload = ''''
      then (Err ''Invalid payload'', s)
      else
        let interactionId = uuidv4 env;
            interaction = \<lparr>ci_id = interactionId,
                           ci_customerId = caller env,
                           ci_productId = cipl_productId payload,
                           ci_rating = cipl_rating payload,
                           ci_review = cipl_review payload,
                           ci_createdAt = time env\<rparr>
        in (Ok interaction,
            s\<lparr>customerInteractions :=
                 (customerInteractions s)(interactionId \<mapsto> interaction)\<rparr>))"

subsection \<open>The update calls of the service\<close>

text \<open>
  The runtime dispatches one update call at a time, each running to completion.
  A query does not change the state.
\<close>

datatype call =
    AddProduct FoodPayload
  | UpdateProductQuantity string number
  | PlaceOrder OrderPayload
  | CancelOrder string
  | ConfirmOrder string
  | DeliverOrder string
  | AddCustomerInteraction CustomerInteractionPayload

fun update_call :: "Env \<Rightarrow> call \<Rightarrow> State \<Rightarrow> State" where
  "update_call env (AddProduct payload) s = snd (addProduct env payload s)"
| "update_call env (UpdateProductQuantity productId newQuantity) s =
     snd (updateProductQuantity env productId newQuantity s)"
| "update_call env (PlaceOrder payload) s = snd (placeOrder env payload s)"
| "update_call env (CancelOrder orderId) s = snd (cancelOrder env orderId s)"
| "update_call env (ConfirmOrder orderId) s = snd (confirmOrder orderId s)"
| "update_call env (DeliverOrder orderId) s = snd (deliverOrder env orderId s)"
| "update_call env (AddCustomerInteraction payload) s =
     snd (addCustomerInteraction env payload s)"

text \<open>The state of a freshly deployed module, and a sequence of update calls from a state.\<close>

definition init :: "Principal \<Rightarrow> State" where
  "init deployer =
     \<lparr>foodProducts = Map.empty, orders = Map.empty,
      customerInteractions = Map.empty, owner = deployer\<rparr>"

fun run :: "(Env \<times> call) list \<Rightarrow> State \<Rightarrow> State" where
  "run [] s = s"
| "run ((env, c) # cs) s = run cs (update_call env c s)"

subsection \<open>Vocabulary of the properties\<close>

text \<open>The terminal states of an order and the edges of its state machine.\<close>

definition terminal :: "string \<Rightarrow> bool" where
  "terminal st = (st = ''cancelled'' \<or> st = ''delivered'')"

definition status_step :: "string \<Rightarrow> string \<Rightarrow> bool" where
  "status_step a b =
     (a = ''placed'' \<and> b = ''confirmed'' \<or>
      a = ''confirmed'' \<and> b = ''delivered'' \<or>
      a = ''placed'' \<and> b = ''cancelled'')"

text \<open>Every product is stored under its own id.\<close>

definition products_keyed :: "State \<Rightarrow> bool" where
  "products_keyed s = (\<forall>k p. foodProducts s k = Some p \<longrightarrow> fp_id p = k)"

definition all_placed :: "State \<Rightarrow> bool" where
  "all_placed s = (\<forall>k order. orders s k = Some order \<longrightarrow> o_status order = ''placed'')"

subsection \<open>Sample data\<close>

definition shop_owner :: Principal where
  "shop_owner = Principal ''rrkah-fqaaa-aaaaa-aaaaq-cai''"

definition customer :: Principal where
  "customer = Principal ''2vxsx-fae''"

definition burger :: FoodProduct where
  "burger = \<lparr>fp_id = ''p1'', fp_name = ''Burger'', fp_description = ''Beef burger'',
             fp_price = 500, fp_quantityAvailable = num 2\<rparr>"

definition burger_payload :: FoodPayload where
  "burger_payload = \<lparr>fpl_name = ''Burger'', fpl_description = ''Beef burger'',
                     fpl_price = 500, fpl_quantityAvailable = num 10\<rparr>"

definition shop :: State where
  "shop = \<lparr>foodProducts = [''p1'' \<mapsto> burger], orders = Map.empty,
           customerInteractions = Map.empty, owner = shop_owner\<rparr>"

definition customer_env :: Env where
  "customer_env = \<lparr>caller = customer, time = 1000, uuidv4 = ''o1''\<rparr>"

definition owner_env :: Env where
  "owner_env = \<lparr>caller = shop_owner, time = 2000, uuidv4 = ''o2''\<rparr>"

definition order_of :: "string \<Rightarrow> Order" where
  "order_of st = \<lparr>o_id = ''o1'', o_customerId = customer, o_productId = ''p1'',
                  o_quantity = num 1, o_status = st, o_createdAt = 1000\<rparr>"

definition shop_with :: "string \<Rightarrow> State" where
  "shop_with st = shop\<lparr>orders := [''o1'' \<mapsto> order_of st]\<rparr>"

lemmas sample_defs =
  shop_owner_def customer_def burger_def burger_payload_def shop_def customer_env_def
  owner_env_def order_of_def shop_with_def


section \<open>Helper facts\<close>

subsection \<open>Subtraction of integers\<close>

lemma falsy_num: "falsy (num n) = (n = 0)"
  by (simp add: falsy_def num_def)

lemma falsy_NaN: "falsy NaN"
  by (simp add: falsy_def)

lemma num_eq_iff: "(num a = num b) = (a = b)"
  by (simp add: num_def)

lemma num_neq_NaN: "num n \<noteq> NaN" "NaN \<noteq> num n"
  by (simp_all add: num_def)

lemma round_half_even_of_int: "round_half_even (of_int n) = n"
  by (simp add: round_half_even_def)

text \<open>
  The rounding of a value whose magnitude is \<open>K\<close> smallest positive values, once
  the shift \<open>s\<close> and the rounded significand \<open>j\<close> are known.
\<close>

lemma round64_at:
  assumes K: "\<bar>d\<bar> * 2 ^ emin = of_int K"
    and s: "nat (bitlen K - 53) = s"
    and j: "round_half_even (of_int K / 2 ^ s) = j"
    and pos: "0 < j"
    and fin: "j * 2 ^ s < 2 ^ (emax + emin)"
  shows "round64 d = Fin (sgn d * of_int (j * 2 ^ s) / 2 ^ emin)"
proof -
  have fl: "\<lfloor>\<bar>d\<bar> * 2 ^ emin\<rfloor> = K"
    by (simp only: K floor_of_int)
  have "\<not> 2 ^ (emax + emin) \<le> j * 2 ^ s" and "j * 2 ^ s \<noteq> 0"
    using pos fin by simp_all
  then show ?thesis
    unfolding round64_def Let_def fl s
    by (simp only: K j if_False simp_thms)
qed

lemma round64_zero: "round64 0 = Fin 0"
  by (simp add: round64_def round_half_even_def)

text \<open>An integer of magnitude at most \<open>2 ^ 53\<close> is a value of the format.\<close>

lemma round64_of_int:
  assumes "\<bar>n\<bar> \<le> 2 ^ 53"
  shows "round64 (of_int n) = Fin (of_int n)"
proof (cases "n = 0")
  case True
  then show ?thesis by (simp add: round64_zero)
next
  case False
  define a where "a = \<bar>n\<bar>"
  have a: "0 < a" "a \<le> 2 ^ 53"
    using False assms by (auto simp: a_def)
  define b where "b = bitlen a"
  have b1: "1 \<le> b"
    using a bitlen_eq_zero_iff [of a] bitlen_nonneg [of a] by (auto simp: b_def)
  have "a < 2 ^ nat 54"
    using a by simp
  then have b54: "b \<le> 54"
    unfolding b_def by (simp only: bitlen_le_iff_power) simp
  define K where "K = a * 2 ^ emin"
  define s where "s = nat (bitlen K - 53)"
  have bK: "bitlen K = b + int emin"
    unfolding K_def b_def using a(1) by (rule bitlen_pow2)
  have e53: "53 \<le> emin"
    by (simp add: emin_def)
  have "\<exists>j. 0 < j \<and> of_int K / 2 ^ s = (of_int j :: rat) \<and> j * 2 ^ s = K"
  proof (cases "b \<le> 53")
    case True
    have "s + nat (53 - b) = emin"
      using True b1 e53 by (simp add: s_def bK)
    then have "(2::int) ^ emin = 2 ^ nat (53 - b) * 2 ^ s"
      by (metis power_add add.commute)
    then have eq: "(a * 2 ^ nat (53 - b)) * 2 ^ s = K"
      by (simp only: K_def mult.assoc)
    have "(of_int K :: rat) = of_int ((a * 2 ^ nat (53 - b)) * 2 ^ s)"
      by (simp only: eq)
    then have "(of_int K :: rat) = of_int (a * 2 ^ nat (53 - b)) * 2 ^ s"
      by simp
    then have "of_int K / 2 ^ s = (of_int (a * 2 ^ nat (53 - b)) :: rat)"
      by simp
    moreover have "0 < a * 2 ^ nat (53 - b)"
      using a by simp
    ultimately show ?thesis
      using eq by blast
  next
    case False
    then have b: "b = 54"
      using b54 by simp
    have "2 ^ nat (b - 1) \<le> a"
      using bitlen_bounds [OF a(1)] by (simp add: b_def)
    then have a53: "a = 2 ^ 53"
      using a b by simp
    have s1: "s = Suc emin"
      by (simp add: s_def bK b)
    have eq: "(2 ^ 52) * 2 ^ s = K"
      by (simp add: K_def a53 s1)
    have "(of_int K :: rat) = of_int ((2 ^ 52) * 2 ^ s)"
      by (simp only: eq)
    then have "(of_int K :: rat) = of_int (2 ^ 52) * 2 ^ s"
      by simp
    then have "of_int K / 2 ^ s = (of_int (2 ^ 52) :: rat)"
      by simp
    then show ?thesis
      using eq by (intro exI [of _ "2 ^ 52"]) simp
  qed
  then obtain j where j: "0 < j" "of_int K / 2 ^ s = (of_int j :: rat)" "j * 2 ^ s = K"
    by blast
  have rj: "round_half_even (of_int K / 2 ^ s) = j"
    by (simp only: j(2) round_half_even_of_int)
  have "K \<le> 2 ^ 53 * 2 ^ emin"
    unfolding K_def using a(2) by simp
  also have "\<dots> = (2::int) ^ (53 + emin)"
    by (simp only: power_add)
  also have "\<dots> < 2 ^ (emax + emin)"
    by (simp add: emax_def)
  finally have fin: "j * 2 ^ s < 2 ^ (emax + emin)"
    by (simp only: j(3))
  have sc: "\<bar>rat_of_int n\<bar> * 2 ^ emin = of_int K"
    by (simp add: K_def a_def)
  have "round64 (of_int n) = Fin (sgn (rat_of_int n) * of_int K / 2 ^ emin)"
    using round64_at [OF sc s_def [symmetric] rj j(1) fin] by (simp only: j(3))
  also have "sgn (rat_of_int n) * of_int K / 2 ^ emin = sgn (rat_of_int n) * \<bar>of_int n\<bar>"
    by (simp add: K_def a_def)
  also have "\<dots> = of_int n"
    by (simp only: sgn_mult_abs)
  finally show ?thesis .
qed

lemma fsub_num:
  "\<bar>a - b\<bar> \<le> 2 ^ 53 \<Longrightarrow> fsub (num a) (num b) = num (a - b)"
  using round64_of_int [of "a - b"] by (simp add: fsub_def num_def)

lemma bitlen_eqI: "2 ^ n \<le> x \<Longrightarrow> x < 2 ^ Suc n \<Longrightarrow> bitlen x = int (Suc n)"
proof -
  assume lo: "2 ^ n \<le> x" and hi: "x < 2 ^ Suc n"
  have "bitlen x \<le> int (Suc n)"
    using hi by (simp only: bitlen_le_iff_power nat_int) simp
  moreover have "int (Suc n) \<le> bitlen x"
    using lo by (simp only: bitlen_ge_iff_power nat_int) simp
  ultimately show ?thesis by simp
qed

text \<open>
  \<open>2 ^ 54 - 1\<close> lies half way between the neighbouring values \<open>2 ^ 54 - 2\<close> and
  \<open>2 ^ 54\<close> of the format; the tie goes to the even significand.
\<close>

lemma round64_tie: "round64 (of_int (2 ^ 54 - 1)) = Fin (of_int (2 ^ 54))"
proof -
  define K :: int where "K = (2 ^ 54 - 1) * 2 ^ emin"
  have "bitlen (2 ^ 54 - 1 :: int) = int (Suc 53)"
    by (rule bitlen_eqI) simp_all
  then have "bitlen K = 54 + int emin"
    unfolding K_def by (subst bitlen_pow2) simp_all
  then have s: "nat (bitlen K - 53) = Suc emin"
    by simp
  have q: "(of_int K :: rat) / 2 ^ Suc emin = (2 ^ 54 - 1) / 2"
    by (simp add: K_def)
  have fl: "\<lfloor>(18014398509481983::rat) / 2\<rfloor> = 9007199254740991"
    using floor_divide_of_int_eq [of 18014398509481983 2, where ?'a = rat] by simp
  have r: "round_half_even ((2 ^ 54 - 1) / 2) = 2 ^ 53"
    by (simp add: round_half_even_def Let_def fl)
  have j: "round_half_even (of_int K / 2 ^ Suc emin) = 2 ^ 53"
    by (simp only: q r)
  have "(2::int) ^ 53 * 2 ^ Suc emin = 2 ^ (53 + Suc emin)"
    by (simp only: power_add)
  also have "\<dots> < 2 ^ (emax + emin)"
    by (simp add: emax_def)
  finally have fin: "(2::int) ^ 53 * 2 ^ Suc emin < 2 ^ (emax + emin)" .
  have sc: "\<bar>rat_of_int (2 ^ 54 - 1)\<bar> * 2 ^ emin = of_int K"
    by (simp add: K_def)
  have "round64 (of_int (2 ^ 54 - 1)) =
          Fin (sgn (rat_of_int (2 ^ 54 - 1)) * of_int (2 ^ 53 * 2 ^ Suc emin) / 2 ^ emin)"
    using sc s j _ fin by (rule round64_at) simp
  then show ?thesis by simp
qed

lemma fsub_tie: "fsub (num (2 ^ 54)) (num 1) = num (2 ^ 54)"
  using round64_tie by (simp add: fsub_def num_def)

subsection \<open>The collections\<close>

lemma toString_neq: "a \<noteq> b \<Longrightarrow> toString a \<noteq> toString b"
  by (cases a, cases b) simp

lemma cancelOrder_state: "snd (cancelOrder env orderId s) = s"
  by (simp add: cancelOrder_def split: option.split)

lemma confirmOrder_state: "snd (confirmOrder orderId s) = s"
  by (simp add: confirmOrder_def split: option.split)

lemma deliverOrder_state: "snd (deliverOrder env orderId s) = s"
  by (simp add: deliverOrder_def split: option.split)

lemma addProduct_orders: "orders (snd (addProduct env payload s)) = orders s"
  by (simp add: addProduct_def Let_def)

lemma updateProductQuantity_orders:
  "orders (snd (updateProductQuantity env productId newQuantity s)) = orders s"
  by (simp add: updateProductQuantity_def Let_def split: option.split)

lemma addCustomerInteraction_orders:
  "orders (snd (addCustomerInteraction env payload s)) = orders s"
  by (simp add: addCustomerInteraction_def Let_def)

lemma products_keyed_insert:
  "products_keyed s \<Longrightarrow> fp_id p = k \<Longrightarrow>
   products_keyed (s\<lparr>foodProducts := (foodProducts s)(k \<mapsto> p)\<rparr>)"
  by (simp add: products_keyed_def)

lemma placeOrder_orders:
  "orders (snd (placeOrder env payload s)) k = Some order' \<Longrightarrow>
   orders s k = Some order' \<or> (k = uuidv4 env \<and> o_status order' = ''placed'')"
  by (auto simp add: placeOrder_def Let_def split: option.splits if_splits)

lemma placeOrder_orders_kept:
  "orders s k = Some order \<Longrightarrow> k \<noteq> uuidv4 env \<Longrightarrow>
   orders (snd (placeOrder env payload s)) k = Some order"
  by (simp add: placeOrder_def Let_def split: option.split)

lemma placeOrder_orders_dom:
  "orders s k = Some order \<Longrightarrow> \<exists>order'. orders (snd (placeOrder env payload s)) k = Some order'"
  by (simp add: placeOrder_def Let_def split: option.split)

text \<open>
  Only \<^verbatim>\<open>placeOrder\<close> writes to the orders collection, and it writes status
  \<open>placed\<close>: in every state that update calls reach from a fresh deployment, every
  stored order has status \<open>placed\<close>.
\<close>

lemma all_placed_update_call: "all_placed s \<Longrightarrow> all_placed (update_call env c s)"
proof (cases c)
  case (PlaceOrder payload)
  assume "all_placed s"
  then show ?thesis
    unfolding all_placed_def PlaceOrder update_call.simps
    by (blast dest: placeOrder_orders)
qed (simp_all add: all_placed_def cancelOrder_state confirmOrder_state deliverOrder_state
      addProduct_orders updateProductQuantity_orders addCustomerInteraction_orders)

lemma all_placed_run: "all_placed s \<Longrightarrow> all_placed (run cs s)"
  by (induction cs arbitrary: s) (simp_all add: all_placed_update_call split_paired_all)

lemma reachable_orders_placed:
  "orders (run cs (init deployer)) k = Some order \<Longrightarrow> o_status order = ''placed''"
proof -
  have "all_placed (init deployer)"
    by (simp add: all_placed_def init_def)
  then have "all_placed (run cs (init deployer))"
    by (rule all_placed_run)
  then show "orders (run cs (init deployer)) k = Some order \<Longrightarrow> o_status order = ''placed''"
    by (simp add: all_placed_def)
qed

section \<open>Placing an order\<close>

text \<open>
  C1, as the code has it. In a store that holds a product under the key
  \<open>productId\<close> (the record carrying that key as its id), placeOrder with a nonempty
  \<open>productId\<close> and a quantity that is neither zero nor not-a-number returns an order
  with status \<open>placed\<close>, customerId the caller and createdAt the current time; the
  order is stored in the orders collection under its id, and the stored product
  afterwards differs from the one before only in quantityAvailable, which is the
  difference of the stored and the ordered quantity as the operator \<^verbatim>\<open>-\<close> of the
  language computes it. When the two are the integers \<open>Q\<close> and \<open>q\<close> and
  \<open>\<bar>Q - q\<bar> \<le> 2 ^ 53\<close>, that difference is \<open>Q - q\<close>. Nothing relates \<open>q\<close> to
  \<open>Q\<close>: the result may be negative.
\<close>

theorem placeOrder_places_and_subtracts:
  assumes "opl_productId payload \<noteq> ''''"
    and "\<not> falsy (opl_quantity payload)"
    and "foodProducts s (opl_productId payload) = Some product"
    and "fp_id product = opl_productId payload"
  shows "\<exists>order s'.
           placeOrder env payload s = (Ok order, s') \<and>
           o_status order = ''placed'' \<and>
           o_customerId order = caller env \<and>
           o_createdAt order = time env \<and>
           o_productId order = opl_productId payload \<and>
           o_quantity order = opl_quantity payload \<and>
           orders s' (o_id order) = Some order \<and>
           foodProducts s' (opl_productId payload) =
             Some (product\<lparr>fp_quantityAvailable :=
                              fsub (fp_quantityAvailable product) (opl_quantity payload)\<rparr>) \<and>
           (\<forall>Q q. fp_quantityAvailable product = num Q \<and> opl_quantity payload = num q \<and>
                  \<bar>Q - q\<bar> \<le> 2 ^ 53 \<longrightarrow>
                  fsub (fp_quantityAvailable product) (opl_quantity payload) = num (Q - q))"
  using assms by (auto simp add: placeOrder_def Let_def fsub_num)

theorem placeOrder_places_and_subtracts_witness:
  "\<exists>order s'.
     placeOrder customer_env \<lparr>opl_productId = ''p1'', opl_quantity = num 5\<rparr> shop = (Ok order, s') \<and>
     o_status order = ''placed'' \<and>
     o_customerId order = customer \<and>
     o_createdAt order = 1000 \<and>
     orders s' (o_id order) = Some order \<and>
     foodProducts s' ''p1'' = Some (burger\<lparr>fp_quantityAvailable := num (- 3)\<rparr>)"
  using placeOrder_places_and_subtracts
    [of "\<lparr>opl_productId = ''p1'', opl_quantity = num 5\<rparr>" shop burger customer_env]
  by (auto simp add: sample_defs falsy_num)

text \<open>
  C1, as the claim has it, at a stock of \<open>2 ^ 54\<close> and an order of 1: the product
  is stored, the id is nonempty, the quantity is not zero, the order is placed, and
  the stock afterwards is \<open>2 ^ 54\<close>, not \<open>2 ^ 54 - 1\<close>. And a quantity that is
  not-a-number is not zero, yet the payload is rejected.
\<close>

theorem placeOrder_exact_difference_counterexample:
  "foodProducts (shop\<lparr>foodProducts := [''p1'' \<mapsto> burger\<lparr>fp_quantityAvailable := num (2 ^ 54)\<rparr>]\<rparr>)
      ''p1'' = Some (burger\<lparr>fp_quantityAvailable := num (2 ^ 54)\<rparr>) \<and>
   num 1 \<noteq> num 0 \<and>
   map_option fp_quantityAvailable
     (foodProducts
        (snd (placeOrder customer_env \<lparr>opl_productId = ''p1'', opl_quantity = num 1\<rparr>
               (shop\<lparr>foodProducts := [''p1'' \<mapsto> burger\<lparr>fp_quantityAvailable := num (2 ^ 54)\<rparr>]\<rparr>)))
        ''p1'') = Some (num (2 ^ 54)) \<and>
   num (2 ^ 54) \<noteq> num (2 ^ 54 - 1) \<and>
   NaN \<noteq> num 0 \<and>
   placeOrder customer_env \<lparr>opl_productId = ''p1'', opl_quantity = NaN\<rparr> shop =
     (Err ''Invalid payload'', shop)"
  using fsub_tie
  by (simp add: placeOrder_def Let_def falsy_num falsy_NaN shop_def burger_def
      num_eq_iff num_neq_NaN)

section \<open>Cancelling an order\<close>

text \<open>
  C2. A customer places an order and cancels it twice. The claim: the first call
  returns true and the stored status becomes \<open>cancelled\<close>, the second returns false.
  The code: the first call returns true, the stored status is still \<open>placed\<close>
  (the assignment went to the record handed out by \<^verbatim>\<open>get\<close>, and nothing is
  inserted back), and so the second call returns true again.
\<close>

theorem cancelOrder_twice_both_true:
  "(let s0 = snd (placeOrder customer_env \<lparr>opl_productId = ''p1'', opl_quantity = num 1\<rparr> shop);
        (r1, s1) = cancelOrder customer_env ''o1'' s0;
        (r2, s2) = cancelOrder customer_env ''o1'' s1
    in map_option o_status (orders s0 ''o1'') = Some ''placed'' \<and>
       r1 = True \<and>
       map_option o_status (orders s1 ''o1'') = Some ''placed'' \<and>
       r2 = True \<and>
       map_option o_status (orders s2 ''o1'') = Some ''placed'')"
  by (simp add: sample_defs placeOrder_def cancelOrder_def Let_def falsy_num)

section \<open>The state machine of an order\<close>

text \<open>
  C3. For an order stored under \<open>orderId\<close>: if its status is terminal (\<open>cancelled\<close>
  or \<open>delivered\<close>), then cancelOrder, confirmOrder and deliverOrder on it, by any
  caller, return false and leave the store as it was. And whatever update call runs
  next, the order is still stored afterwards, its status either the same or one edge
  further along placed \<rightarrow> confirmed \<rightarrow> delivered or placed \<rightarrow> cancelled; this
  holds whenever the id generated during the call is not \<open>orderId\<close> or the status is
  \<open>placed\<close>, which by \<open>reachable_orders_placed\<close> covers every reachable state.
\<close>

theorem terminal_frozen_and_status_monotone:
  assumes "orders s orderId = Some order"
  shows "(terminal (o_status order) \<longrightarrow>
            cancelOrder env orderId s = (False, s) \<and>
            confirmOrder orderId s = (False, s) \<and>
            deliverOrder env orderId s = (False, s)) \<and>
         (uuidv4 env \<noteq> orderId \<or> o_status order = ''placed'' \<longrightarrow>
            (\<exists>order'. orders (update_call env c s) orderId = Some order' \<and>
               (o_status order' = o_status order \<or>
                status_step (o_status order) (o_status order'))))"
proof (intro conjI impI)
  assume "terminal (o_status order)"
  with assms show "cancelOrder env orderId s = (False, s)"
    by (auto simp add: cancelOrder_def terminal_def)
next
  assume "terminal (o_status order)"
  with assms show "confirmOrder orderId s = (False, s)"
    by (auto simp add: confirmOrder_def terminal_def)
next
  assume "terminal (o_status order)"
  with assms show "deliverOrder env orderId s = (False, s)"
    by (auto simp add: deliverOrder_def terminal_def)
next
  assume fresh: "uuidv4 env \<noteq> orderId \<or> o_status order = ''placed''"
  show "\<exists>order'. orders (update_call env c s) orderId = Some order' \<and>
          (o_status order' = o_status order \<or> status_step (o_status order) (o_status order'))"
  proof (cases c)
    case (PlaceOrder payload)
    obtain order' where o': "orders (snd (placeOrder env payload s)) orderId = Some order'"
      using placeOrder_orders_dom [OF assms] by blast
    have "o_status order' = o_status order"
    proof (cases "orderId = uuidv4 env")
      case True
      with fresh have placed: "o_status order = ''placed''" by auto
      from placeOrder_orders [OF o'] assms placed show ?thesis by auto
    next
      case False
      from placeOrder_orders_kept [OF assms False] o' show ?thesis by simp
    qed
    with o' show ?thesis by (simp add: PlaceOrder)
  qed (simp_all add: assms cancelOrder_state confirmOrder_state deliverOrder_state
        addProduct_orders updateProductQuantity_orders addCustomerInteraction_orders)
qed

theorem terminal_frozen_and_status_monotone_witness:
  "cancelOrder customer_env ''o1'' (shop_with ''delivered'') = (False, shop_with ''delivered'') \<and>
   confirmOrder ''o1'' (shop_with ''delivered'') = (False, shop_with ''delivered'') \<and>
   deliverOrder owner_env ''o1'' (shop_with ''delivered'') = (False, shop_with ''delivered'') \<and>
   (\<exists>order'. orders (update_call owner_env (DeliverOrder ''o1'') (shop_with ''delivered'')) ''o1''
                = Some order' \<and>
              o_status order' = ''delivered'')"
proof -
  have stored: "orders (shop_with ''delivered'') ''o1'' = Some (order_of ''delivered'')"
    by (simp add: shop_with_def)
  have st: "o_status (order_of ''delivered'') = ''delivered''"
    by (simp add: order_of_def)
  have fresh: "uuidv4 owner_env \<noteq> ''o1''"
    by (simp add: owner_env_def)
  have no_step: "\<not> status_step ''delivered'' b" for b
    by (simp add: status_step_def)
  show ?thesis
    using terminal_frozen_and_status_monotone [OF stored, of customer_env "DeliverOrder ''o1''"]
      terminal_frozen_and_status_monotone [OF stored, of owner_env "DeliverOrder ''o1''"]
      fresh
    by (simp add: stored st terminal_def no_step deliverOrder_state)
qed

section \<open>Confirming an order\<close>

text \<open>
  C4. confirmOrder returns true exactly when \<open>orderId\<close> is nonempty, an order is
  stored under it and that order's status is \<open>placed\<close>. The function does not depend
  on the caller (it takes no environment), so this holds for every calling identity.
  Whenever it does not return true, it returns false and the store is as it was.
\<close>

theorem confirmOrder_true_iff:
  "(fst (confirmOrder orderId s) =
      (orderId \<noteq> '''' \<and> (\<exists>order. orders s orderId = Some order \<and> o_status order = ''placed''))) \<and>
   (\<not> fst (confirmOrder orderId s) \<longrightarrow> confirmOrder orderId s = (False, s))"
  by (auto simp add: confirmOrder_def split: option.split)

theorem confirmOrder_true_iff_witness:
  "fst (confirmOrder ''o1'' (shop_with ''placed'')) \<and>
   \<not> fst (confirmOrder ''o1'' (shop_with ''confirmed'')) \<and>
   confirmOrder ''o1'' (shop_with ''confirmed'') = (False, shop_with ''confirmed'') \<and>
   confirmOrder ''o7'' (shop_with ''placed'') = (False, shop_with ''placed'') \<and>
   confirmOrder '''' (shop_with ''placed'') = (False, shop_with ''placed'')"
  using confirmOrder_true_iff [of "''o1''" "shop_with ''placed''"]
    confirmOrder_true_iff [of "''o1''" "shop_with ''confirmed''"]
    confirmOrder_true_iff [of "''o7''" "shop_with ''placed''"]
    confirmOrder_true_iff [of "''''" "shop_with ''placed''"]
  by (simp add: shop_with_def order_of_def)

section \<open>Delivering an order\<close>

text \<open>
  C5. deliverOrder returns false and leaves the store as it was when the caller is
  not the deployment-time owner (also for an existing order with status
  \<open>confirmed\<close>), when \<open>orderId\<close> is empty, when no order is stored under it, or when
  the stored order's status is not \<open>confirmed\<close>.
\<close>

theorem deliverOrder_rejects:
  assumes "caller env \<noteq> owner s \<or> orderId = '''' \<or> orders s orderId = None \<or>
           (\<exists>order. orders s orderId = Some order \<and> o_status order \<noteq> ''confirmed'')"
  shows "deliverOrder env orderId s = (False, s)"
proof -
  have "caller env \<noteq> owner s \<Longrightarrow> toString (owner s) \<noteq> toString (caller env)"
    using toString_neq [of "owner s" "caller env"] by auto
  with assms show ?thesis
    by (auto simp add: deliverOrder_def split: option.split)
qed

theorem deliverOrder_rejects_witness:
  "deliverOrder customer_env ''o1'' (shop_with ''confirmed'') = (False, shop_with ''confirmed'') \<and>
   deliverOrder owner_env ''o1'' (shop_with ''placed'') = (False, shop_with ''placed'') \<and>
   deliverOrder owner_env ''o7'' (shop_with ''confirmed'') = (False, shop_with ''confirmed'') \<and>
   deliverOrder owner_env '''' (shop_with ''confirmed'') = (False, shop_with ''confirmed'')"
  using deliverOrder_rejects [of customer_env "shop_with ''confirmed''" "''o1''"]
    deliverOrder_rejects [of owner_env "shop_with ''placed''" "''o1''"]
    deliverOrder_rejects [of owner_env "shop_with ''confirmed''" "''o7''"]
    deliverOrder_rejects [of owner_env "shop_with ''confirmed''" "''''"]
  by (simp add: sample_defs)

section \<open>Updating a product's quantity\<close>

text \<open>
  C6. updateProductQuantity: an empty \<open>productId\<close> gives the invalid-id error; else an
  id under which no product is stored gives the not-found error, whoever calls; else a
  caller other than the deployment-time owner gives the not-the-owner error; in these
  three cases the store is as it was. Else (the record being stored under its own id)
  the record with quantityAvailable replaced by \<open>newQuantity\<close> and nothing else
  changed is returned, and is what the store then holds under \<open>productId\<close>.
\<close>

theorem updateProductQuantity_cases:
  "(productId = '''' \<longrightarrow>
      updateProductQuantity env productId newQuantity s =
        (Err ''Invalid Product ID provided.'', s)) \<and>
   (productId \<noteq> '''' \<and> foodProducts s productId = None \<longrightarrow>
      updateProductQuantity env productId newQuantity s =
        (Err (''Couldn't update Product with id='' @ productId @ ''. Product not found''), s)) \<and>
   (productId \<noteq> '''' \<and> foodProducts s productId = Some product \<and> caller env \<noteq> owner s \<longrightarrow>
      updateProductQuantity env productId newQuantity s =
        (Err ''You are not the owner of this product'', s)) \<and>
   (productId \<noteq> '''' \<and> foodProducts s productId = Some product \<and> caller env = owner s \<and>
    fp_id product = productId \<longrightarrow>
      updateProductQuantity env productId newQuantity s =
        (Ok (product\<lparr>fp_quantityAvailable := newQuantity\<rparr>),
         s\<lparr>foodProducts :=
             (foodProducts s)(productId \<mapsto> product\<lparr>fp_quantityAvailable := newQuantity\<rparr>)\<rparr>))"
proof -
  have "caller env \<noteq> owner s \<Longrightarrow> toString (owner s) \<noteq> toString (caller env)"
    using toString_neq [of "owner s" "caller env"] by auto
  then show ?thesis
    by (auto simp add: updateProductQuantity_def Let_def)
qed

theorem updateProductQuantity_cases_witness:
  "updateProductQuantity customer_env '''' (num 7) shop = (Err ''Invalid Product ID provided.'', shop) \<and>
   updateProductQuantity customer_env ''p9'' (num 7) shop =
     (Err ''Couldn't update Product with id=p9. Product not found'', shop) \<and>
   updateProductQuantity customer_env ''p1'' (num 7) shop =
     (Err ''You are not the owner of this product'', shop) \<and>
   updateProductQuantity owner_env ''p1'' (num 7) shop =
     (Ok (burger\<lparr>fp_quantityAvailable := num 7\<rparr>),
      shop\<lparr>foodProducts := (foodProducts shop)(''p1'' \<mapsto> burger\<lparr>fp_quantityAvailable := num 7\<rparr>)\<rparr>)"
proof -
  have stored: "foodProducts shop ''p1'' = Some burger" and absent: "foodProducts shop ''p9'' = None"
    by (simp_all add: shop_def)
  have who: "caller customer_env \<noteq> owner shop" "caller owner_env = owner shop"
    by (simp_all add: sample_defs)
  have key: "fp_id burger = ''p1''"
    by (simp add: burger_def)
  show ?thesis
    using updateProductQuantity_cases [of "''''" customer_env "num 7" shop burger]
      updateProductQuantity_cases [of "''p9''" customer_env "num 7" shop burger]
      updateProductQuantity_cases [of "''p1''" customer_env "num 7" shop burger]
      updateProductQuantity_cases [of "''p1''" owner_env "num 7" shop burger]
    by (simp add: stored absent who key)
qed

section \<open>Adding a product\<close>

text \<open>
  C7. A valid payload (no field empty or zero) is added to a freshly deployed store.
  The claim: addProduct returns Ok with the new record, and getProductsbyId on its id
  returns an equal record. The code: past the validation, the duplicate check tests
  the \<^verbatim>\<open>Opt\<close> that \<^verbatim>\<open>get\<close> returned for truthiness, which holds of it whether or
  not a product is stored under the new id; addProduct returns the duplicate-id error,
  inserts nothing, and the lookup of the generated id finds no product.
\<close>

theorem addProduct_valid_payload_rejected:
  "addProduct (owner_env\<lparr>uuidv4 := ''p1''\<rparr>) burger_payload (init shop_owner) =
     (Err ''Product with the same id already exists'', init shop_owner) \<and>
   getProductsbyId ''p1''
       (snd (addProduct (owner_env\<lparr>uuidv4 := ''p1''\<rparr>) burger_payload (init shop_owner))) =
     Err ''Product with id=p1 not found''"
  by (simp add: addProduct_def getProductsbyId_def truthy_def Let_def init_def sample_defs
      falsy_num)

text \<open>
  C8. A payload in which name or description is empty, or price is 0, or
  quantityAvailable is falsy (0 in particular, and negative zero and not-a-number), is
  rejected with the invalid-payload error, and the store is as it was.
\<close>

theorem addProduct_rejects_falsy:
  assumes "fpl_name payload = '''' \<or> fpl_description payload = '''' \<or>
           fpl_price payload = 0 \<or> falsy (fpl_quantityAvailable payload)"
  shows "addProduct env payload s = (Err ''Invalid payload'', s)"
  using assms by (simp add: addProduct_def)

theorem addProduct_rejects_falsy_witness:
  "addProduct owner_env (burger_payload\<lparr>fpl_price := 0\<rparr>) shop = (Err ''Invalid payload'', shop) \<and>
   addProduct owner_env (burger_payload\<lparr>fpl_quantityAvailable := num 0\<rparr>) shop =
     (Err ''Invalid payload'', shop) \<and>
   addProduct owner_env (burger_payload\<lparr>fpl_name := ''''\<rparr>) shop = (Err ''Invalid payload'', shop) \<and>
   addProduct owner_env (burger_payload\<lparr>fpl_description := ''''\<rparr>) shop =
     (Err ''Invalid payload'', shop)"
  using addProduct_rejects_falsy [of "burger_payload\<lparr>fpl_price := 0\<rparr>" owner_env shop]
    addProduct_rejects_falsy [of "burger_payload\<lparr>fpl_quantityAvailable := num 0\<rparr>" owner_env shop]
    addProduct_rejects_falsy [of "burger_payload\<lparr>fpl_name := ''''\<rparr>" owner_env shop]
    addProduct_rejects_falsy [of "burger_payload\<lparr>fpl_description := ''''\<rparr>" owner_env shop]
  by (simp add: falsy_num)

section \<open>Adding a customer interaction\<close>

text \<open>
  C9. addCustomerInteraction: a payload whose rating is falsy (0 in particular, and
  negative zero and not-a-number), or whose productId or review is empty, gives the
  invalid-payload error and the store is as it was. Any other payload, whatever its
  rating (any nonzero integer, negative or above 5), gives Ok with a record that
  carries the payload's fields, the caller and the current time, and the store
  afterwards holds that record under its id.
\<close>

theorem addCustomerInteraction_cases:
  "(cipl_productId payload = '''' \<or> falsy (cipl_rating payload) \<or>
    cipl_review payload = '''' \<longrightarrow>
      addCustomerInteraction env payload s = (Err ''Invalid payload'', s)) \<and>
   (cipl_productId payload \<noteq> '''' \<and> \<not> falsy (cipl_rating payload) \<and>
    cipl_review payload \<noteq> '''' \<longrightarrow>
      (\<exists>interaction.
         addCustomerInteraction env payload s =
           (Ok interaction,
            s\<lparr>customerInteractions :=
                (customerInteractions s)(ci_id interaction \<mapsto> interaction)\<rparr>) \<and>
         ci_customerId interaction = caller env \<and>
         ci_createdAt interaction = time env \<and>
         ci_productId interaction = cipl_productId payload \<and>
         ci_rating interaction = cipl_rating payload \<and>
         ci_review interaction = cipl_review payload))"
  by (simp add: addCustomerInteraction_def Let_def)

theorem addCustomerInteraction_cases_witness:
  "addCustomerInteraction customer_env
       \<lparr>cipl_productId = ''p1'', cipl_rating = num 0, cipl_review = ''Fine''\<rparr> shop =
     (Err ''Invalid payload'', shop) \<and>
   (\<exists>interaction.
      addCustomerInteraction customer_env
          \<lparr>cipl_productId = ''p1'', cipl_rating = num (- 4), cipl_review = ''Cold''\<rparr> shop =
        (Ok interaction,
         shop\<lparr>customerInteractions := [ci_id interaction \<mapsto> interaction]\<rparr>) \<and>
      ci_customerId interaction = customer \<and> ci_createdAt interaction = 1000 \<and>
      ci_productId interaction = ''p1'' \<and> ci_rating interaction = num (- 4) \<and>
      ci_review interaction = ''Cold'') \<and>
   (\<exists>interaction.
      addCustomerInteraction customer_env
          \<lparr>cipl_productId = ''p1'', cipl_rating = num 9, cipl_review = ''Great''\<rparr> shop =
        (Ok interaction,
         shop\<lparr>customerInteractions := [ci_id interaction \<mapsto> interaction]\<rparr>) \<and>
      ci_customerId interaction = customer \<and> ci_createdAt interaction = 1000 \<and>
      ci_productId interaction = ''p1'' \<and> ci_rating interaction = num 9 \<and>
      ci_review interaction = ''Great'')"
  using addCustomerInteraction_cases
      [of "\<lparr>cipl_productId = ''p1'', cipl_rating = num 0, cipl_review = ''Fine''\<rparr>" customer_env shop]
    addCustomerInteraction_cases
      [of "\<lparr>cipl_productId = ''p1'', cipl_rating = num (- 4), cipl_review = ''Cold''\<rparr>" customer_env shop]
    addCustomerInteraction_cases
      [of "\<lparr>cipl_productId = ''p1'', cipl_rating = num 9, cipl_review = ''Great''\<rparr>" customer_env shop]
  by (simp add: customer_env_def shop_def falsy_num)

section \<open>The key of a stored product\<close>

text \<open>
  C10. If every product in the store is stored under its own id, then the same holds
  of the store after addProduct, after updateProductQuantity and after placeOrder,
  whatever their arguments and results: each of them leaves the product collection
  as it was or inserts, under the id field of a record, that record or a copy of it
  with another quantityAvailable.
\<close>

theorem products_keyed_preserved:
  assumes "products_keyed s"
  shows "products_keyed (snd (addProduct env1 payload s)) \<and>
         products_keyed (snd (updateProductQuantity env2 productId newQuantity s)) \<and>
         products_keyed (snd (placeOrder env3 orderPayload s))"
proof (intro conjI)
  show "products_keyed (snd (addProduct env1 payload s))"
    using assms
    by (simp add: addProduct_def Let_def products_keyed_insert)
next
  show "products_keyed (snd (updateProductQuantity env2 productId newQuantity s))"
    using assms
    by (simp add: updateProductQuantity_def Let_def products_keyed_insert
        split: option.split)
next
  show "products_keyed (snd (placeOrder env3 orderPayload s))"
    using assms
    by (auto simp add: placeOrder_def products_keyed_def Let_def split: option.split)
qed

theorem products_keyed_preserved_witness:
  "products_keyed shop \<and>
   products_keyed (snd (addProduct owner_env burger_payload shop)) \<and>
   products_keyed (snd (updateProductQuantity owner_env ''p1'' (num 7) shop)) \<and>
   products_keyed (snd (placeOrder customer_env \<lparr>opl_productId = ''p1'', opl_quantity = num 1\<rparr> shop))"
proof -
  have keyed: "products_keyed shop"
    by (simp add: products_keyed_def shop_def burger_def)
  show ?thesis
    using keyed
      products_keyed_preserved
        [OF keyed, of owner_env burger_payload owner_env "''p1''" "num 7" customer_env
          "\<lparr>opl_productId = ''p1'', opl_quantity = num 1\<rparr>"]
    by simp
qed

end
